theory Spec2Isabelle
  imports Complex_Main "HOL-Library.Word" "HOL-Library.While_Combinator"
begin

section \<open>The data model of the Resizer\<close>

text \<open>
  Pointers of the source are identifiers; a pointer that the source tests against
  \<^verbatim>\<open>nullptr\<close> is an option. \<^verbatim>\<open>float\<close> and \<^verbatim>\<open>double\<close> values are real numbers:
  comparisons, maxima and the control flow are those of the source, rounding is left out.
\<close>

type_synonym inst = nat
type_synonym net = nat
type_synonym pin = nat
type_synonym port = nat
type_synonym cell = nat
type_synonym master = nat

datatype error = NullDeref

datatype ParasiticsSrc = src_none | src_placement | src_global_routing | src_detailed_routing

datatype RiseFall = Rise | Fall

text \<open>The Liberty libraries, the LEF masters and the timing models: read, never written.\<close>

record timing_arc =
  arc_from :: port
  arc_fromEdge :: RiseFall
  arc_toEdge :: RiseFall
  arc_id :: nat

record timing_arc_set =
  set_to :: port
  role_isTimingCheck :: bool
  set_arcs :: "timing_arc list"

record library =
  findMaster :: "cell \<Rightarrow> master option"
  masterLibertyCell :: "master \<Rightarrow> cell option"
  masterArea :: "master \<Rightarrow> real"
  masterIsFiller :: "master \<Rightarrow> bool"
  masterPort :: "master \<Rightarrow> nat \<Rightarrow> port"
  isBuffer :: "cell \<Rightarrow> bool"
  isInverter :: "cell \<Rightarrow> bool"
  bufferPorts :: "cell \<Rightarrow> port option \<times> port option"
  portIsAnyTristate :: "port \<Rightarrow> bool"
  portIsAnyOutput :: "port \<Rightarrow> bool"
  portLibertyCell :: "port \<Rightarrow> cell"
  timingArcSets :: "cell \<Rightarrow> timing_arc_set list"
  arcGateDelay :: "timing_arc \<Rightarrow> real \<Rightarrow> real \<Rightarrow> real \<times> real"
  arcGateModel :: "timing_arc \<Rightarrow> (real \<Rightarrow> real \<Rightarrow> real \<times> real) option"
  sta_INF :: real
  equivCells :: "cell \<Rightarrow> cell list option"
  footprint :: "cell \<Rightarrow> string option"
  userFunctionClass :: "cell \<Rightarrow> string option"
  cellDontUse :: "cell \<Rightarrow> bool"
  cellName :: "cell \<Rightarrow> string"
  findLibertyCell :: "string \<Rightarrow> cell option"

text \<open>
  The netlist database. Top-level ports are pins too (\<open>pin_isBTerm\<close>), as in the
  timing network; \<open>nl_pins\<close> fixes the order in which the pin iterators visit. A pin of
  an instance sits at a position of the instance's master (\<open>pin_pos\<close>); its Liberty port
  is the port of the current master at that position, so that the pins stay aligned when
  the master is swapped.
\<close>

record netlist =
  nl_insts :: "inst set"
  nl_nets :: "net set"
  nl_pins :: "pin list"
  pin_inst :: "pin \<Rightarrow> inst"
  pin_pos :: "pin \<Rightarrow> nat"
  pin_isBTerm :: "pin \<Rightarrow> bool"
  pin_net :: "pin \<Rightarrow> net option"
  inst_master :: "inst \<Rightarrow> master"
  inst_isCore :: "inst \<Rightarrow> bool"
  inst_isPad :: "inst \<Rightarrow> bool"
  inst_doNotTouch :: "inst \<Rightarrow> bool"
  inst_fixed :: "inst \<Rightarrow> bool"
  inst_location :: "inst \<Rightarrow> int \<times> int"
  inst_name :: "inst \<Rightarrow> string"
  pin_port_name :: "pin \<Rightarrow> string"
  net_doNotTouch :: "net \<Rightarrow> bool"
  topInstance :: inst

record BufferData =
  bd_lib_cell :: cell
  bd_driver_pin :: "string \<times> string"
  bd_load_pins :: "(string \<times> string) list"
  bd_location :: "int \<times> int"
  bd_parent :: inst

text \<open>
  The state of the Resizer that the operations below read or write. A \<^verbatim>\<open>std::map\<close> is
  an association list that the operations keep free of duplicate keys; its \<^verbatim>\<open>size()\<close>
  is the length of the list. The stack of clone pairs has its top at the head.
\<close>

record resizer =
  db :: netlist
  eco_active :: bool
  eco_journal :: "netlist list"
  callback_registered :: bool
  incremental_parasitics_enabled :: bool
  parasitics_src :: ParasiticsSrc
  parasitics_invalid :: "net set"
  design_area :: real
  legalize_requests :: "inst list"
  sdc_pins :: "pin set"
  sdc_nets :: "net set"
  sdc_insts :: "inst set"
  dont_use :: "cell set"
  match_cell_footprint :: bool
  target_load_map :: "cell \<Rightarrow> real option"
  tgt_slews :: "RiseFall \<Rightarrow> real"
  input_slew_map :: "port \<Rightarrow> (RiseFall \<Rightarrow> real) option"
  resized_multi_output_insts :: "inst set"
  resized_inst_map :: "(inst \<times> cell option) list"
  all_sized_inst_set :: "inst set"
  inserted_buffers :: "inst list"
  inserted_buffer_set :: "inst set"
  all_inserted_buffer_set :: "inst set"
  cloned_gates :: "(inst \<times> inst) list"
  cloned_inst_set :: "inst set"
  swapped_pins :: "(inst \<times> port \<times> port) list"
  all_swapped_pin_inst_set :: "inst set"
  removed_buffer_map :: "(string \<times> BufferData) list"

text \<open>The five operation counters that \<^verbatim>\<open>journalRestore\<close> receives by reference
  (\<^verbatim>\<open>int&\<close>, 32 bits, two's complement).\<close>

record counters =
  resize_count :: "32 word"
  inserted_buffer_count :: "32 word"
  cloned_gate_count :: "32 word"
  swap_pin_count :: "32 word"
  removed_buffer_count :: "32 word"

section \<open>Association lists for the journal's maps\<close>

definition hasKey :: "('k \<times> 'v) list \<Rightarrow> 'k \<Rightarrow> bool" where
  "hasKey m k = (map_of m k \<noteq> None)"

fun assign :: "'k \<Rightarrow> 'v \<Rightarrow> ('k \<times> 'v) list \<Rightarrow> ('k \<times> 'v) list" where
  "assign k v [] = [(k, v)]"
| "assign k v ((k', v') # m) = (if k' = k then (k, v) # m else (k', v') # assign k v m)"

section \<open>The database and its ECO checkpoint\<close>

text \<open>
  Modelled from the spec: the database's \<^verbatim>\<open>beginEco\<close>, \<^verbatim>\<open>endEco\<close>, \<^verbatim>\<open>undoEco\<close> and
  \<^verbatim>\<open>ecoEmpty\<close> are not among the sources. The spec: a checkpointed, undoable batch of
  structural netlist edits; undo reverses every primitive edit in reverse order. The
  journal keeps, for each primitive edit made while the checkpoint is open, the netlist
  before that edit (latest first); reversing all of them in reverse order gives back the
  netlist before the oldest one.
\<close>

definition beginEco :: "resizer \<Rightarrow> resizer" where
  "beginEco s = s\<lparr>eco_active := True, eco_journal := []\<rparr>"

definition endEco :: "resizer \<Rightarrow> resizer" where
  "endEco s = s\<lparr>eco_active := False\<rparr>"

definition ecoEmpty :: "resizer \<Rightarrow> bool" where
  "ecoEmpty s = (eco_journal s = [])"

definition undoEco :: "resizer \<Rightarrow> resizer" where
  "undoEco s = (if eco_journal s = [] then s
                else s\<lparr>db := last (eco_journal s), eco_journal := []\<rparr>)"

definition db_edit :: "(netlist \<Rightarrow> netlist) \<Rightarrow> resizer \<Rightarrow> resizer" where
  "db_edit f s = s\<lparr>db := f (db s),
                   eco_journal := (if eco_active s then db s # eco_journal s else eco_journal s)\<rparr>"

definition libertyCell :: "library \<Rightarrow> netlist \<Rightarrow> inst \<Rightarrow> cell option" where
  "libertyCell L nl i = masterLibertyCell L (inst_master nl i)"

definition instPins :: "netlist \<Rightarrow> inst \<Rightarrow> pin list" where
  "instPins nl i = filter (\<lambda>p. pin_inst nl p = i \<and> \<not> pin_isBTerm nl p) (nl_pins nl)"

definition connectedPins :: "netlist \<Rightarrow> net \<Rightarrow> pin list" where
  "connectedPins nl n = filter (\<lambda>p. pin_net nl p = Some n) (nl_pins nl)"

definition libertyPort :: "library \<Rightarrow> netlist \<Rightarrow> pin \<Rightarrow> port" where
  "libertyPort L nl p = masterPort L (inst_master nl (pin_inst nl p)) (pin_pos nl p)"

definition findPin :: "library \<Rightarrow> netlist \<Rightarrow> inst \<Rightarrow> port option \<Rightarrow> pin option" where
  "findPin L nl i pt = (case pt of None \<Rightarrow> None
     | Some q \<Rightarrow> find (\<lambda>p. pin_inst nl p = i \<and> \<not> pin_isBTerm nl p \<and> libertyPort L nl p = q)
                  (nl_pins nl))"

definition net_of :: "netlist \<Rightarrow> pin option \<Rightarrow> net option" where
  "net_of nl p = (case p of None \<Rightarrow> None | Some q \<Rightarrow> pin_net nl q)"

section \<open>The parasitics invalidation tracker\<close>

text \<open>
  Modelled from the spec: \<^verbatim>\<open>Resizer::parasiticsInvalid\<close> is not among the sources. The
  spec: a set of nets with stale parasitics; an edit marks the net invalid.
\<close>

definition parasiticsInvalid :: "net \<Rightarrow> resizer \<Rightarrow> resizer" where
  "parasiticsInvalid n s = s\<lparr>parasitics_invalid := insert n (parasitics_invalid s)\<rparr>"

text \<open>
  Modelled from the spec: \<^verbatim>\<open>Resizer::haveEstimatedParasitics\<close> is not among the
  sources; by its name, some source of parasitics has been chosen.
\<close>

definition haveEstimatedParasitics :: "resizer \<Rightarrow> bool" where
  "haveEstimatedParasitics s = (parasitics_src s \<noteq> src_none)"

text \<open>
  Modelled from the spec: \<^verbatim>\<open>incrementalParasiticsBegin\<close> and
  \<^verbatim>\<open>incrementalParasiticsEnd\<close> are not among the sources; the spec has restore
  re-enable the parasitics update. Only the flag is kept.
\<close>

definition incrementalParasiticsBegin :: "resizer \<Rightarrow> resizer" where
  "incrementalParasiticsBegin s = s\<lparr>incremental_parasitics_enabled := True\<rparr>"

definition incrementalParasiticsEnd :: "resizer \<Rightarrow> resizer" where
  "incrementalParasiticsEnd s = s\<lparr>incremental_parasitics_enabled := False\<rparr>"

text \<open>
  \<^verbatim>\<open>updateParasitics()\<close> is the external batch flush of the timing engine. Of the
  Resizer's state it can only change the set of invalid nets: it is the parameter
  \<open>upd\<close> of the operations that call it.
\<close>

definition updateParasitics :: "(net set \<Rightarrow> net set) \<Rightarrow> resizer \<Rightarrow> resizer" where
  "updateParasitics upd s = s\<lparr>parasitics_invalid := upd (parasitics_invalid s)\<rparr>"

definition invalidateParasitics :: "library \<Rightarrow> pin \<Rightarrow> net option \<Rightarrow> resizer \<Rightarrow> resizer" where
  "invalidateParasitics L p n s =
     (case n of
        None \<Rightarrow> s
      | Some n' \<Rightarrow> if \<not> portIsAnyTristate L (libertyPort L (db s) p) then parasiticsInvalid n' s else s)"

definition eraseParasitics :: "net \<Rightarrow> resizer \<Rightarrow> resizer" where
  "eraseParasitics n s = s\<lparr>parasitics_invalid := parasitics_invalid s - {n}\<rparr>"

section \<open>The journal\<close>

definition journalBegin :: "resizer \<Rightarrow> resizer" where
  "journalBegin s =
     (let s1 = incrementalParasiticsBegin s;
          s2 = beginEco s1;
          s3 = (if callback_registered s2 then s2\<lparr>callback_registered := False\<rparr> else s2)
      in s3\<lparr>resized_inst_map := [],
            inserted_buffers := [],
            inserted_buffer_set := {},
            cloned_gates := [],
            cloned_inst_set := {},
            swapped_pins := [],
            removed_buffer_map := []\<rparr>)"

definition journalSwapPins :: "inst \<Rightarrow> port \<Rightarrow> port \<Rightarrow> resizer \<Rightarrow> resizer" where
  "journalSwapPins i port1 port2 s =
     s\<lparr>swapped_pins := assign i (port1, port2) (swapped_pins s),
       all_swapped_pin_inst_set := insert i (all_swapped_pin_inst_set s)\<rparr>"

definition journalInstReplaceCellBefore :: "library \<Rightarrow> inst \<Rightarrow> resizer \<Rightarrow> resizer" where
  "journalInstReplaceCellBefore L i s =
     (let lib_cell = libertyCell L (db s) i in
      if \<not> hasKey (resized_inst_map s) i
      then s\<lparr>resized_inst_map := assign i lib_cell (resized_inst_map s),
             all_sized_inst_set := insert i (all_sized_inst_set s)\<rparr>
      else s)"

definition journalMakeBuffer :: "inst \<Rightarrow> resizer \<Rightarrow> resizer" where
  "journalMakeBuffer buffer s =
     s\<lparr>inserted_buffers := inserted_buffers s @ [buffer],
       inserted_buffer_set := insert buffer (inserted_buffer_set s),
       all_inserted_buffer_set := insert buffer (all_inserted_buffer_set s)\<rparr>"

text \<open>\<^verbatim>\<open>init()\<close>: of what it refreshes (block, levelization, graph, design area) only
  the design area is part of this state; fillers are not counted.\<close>

definition initDesignArea :: "library \<Rightarrow> resizer \<Rightarrow> resizer" where
  "initDesignArea L s =
     s\<lparr>design_area :=
         (\<Sum>i \<in> nl_insts (db s).
            if masterIsFiller L (inst_master (db s) i) then 0
            else masterArea L (inst_master (db s) i))\<rparr>"

definition init :: "library \<Rightarrow> resizer \<Rightarrow> resizer" where
  "init L s = initDesignArea L s"

definition journalRestore ::
  "library \<Rightarrow> (net set \<Rightarrow> net set) \<Rightarrow> counters \<Rightarrow> resizer \<Rightarrow> counters \<times> resizer" where
  "journalRestore L upd cnt s0 =
     (let s = init L s0 in
      if ecoEmpty s then (cnt, incrementalParasiticsEnd (endEco s))
      else
        let s1 = incrementalParasiticsBegin (incrementalParasiticsEnd s);
            s2 = (if \<not> callback_registered s1 then s1\<lparr>callback_registered := True\<rparr> else s1);
            s3 = undoEco (endEco s2);
            s4 = s3\<lparr>callback_registered := False\<rparr>;
            s5 = incrementalParasiticsEnd (updateParasitics upd s4);
            cnt' = cnt\<lparr>resize_count := resize_count cnt - of_nat (length (resized_inst_map s5)),
                      inserted_buffer_count :=
                        inserted_buffer_count cnt - of_nat (length (inserted_buffers s5)),
                      cloned_gate_count := cloned_gate_count cnt - of_nat (length (cloned_gates s5)),
                      swap_pin_count := swap_pin_count cnt - of_nat (length (swapped_pins s5)),
                      removed_buffer_count :=
                        removed_buffer_count cnt - of_nat (length (removed_buffer_map s5))\<rparr>
        in (cnt', s5\<lparr>resized_inst_map := [],
                     inserted_buffers := [],
                     inserted_buffer_set := {},
                     cloned_gates := [],
                     cloned_inst_set := {},
                     swapped_pins := [],
                     removed_buffer_map := []\<rparr>))"

section \<open>Replacing the cell of an instance\<close>

definition designAreaIncr :: "real \<Rightarrow> resizer \<Rightarrow> resizer" where
  "designAreaIncr delta s = s\<lparr>design_area := design_area s + delta\<rparr>"

definition swapMaster :: "inst \<Rightarrow> master \<Rightarrow> netlist \<Rightarrow> netlist" where
  "swapMaster i m nl = nl\<lparr>inst_master := (inst_master nl)(i := m)\<rparr>"

text \<open>The external legalizer is asked for a legal position; the request is recorded.\<close>

definition legalCellPos :: "inst \<Rightarrow> resizer \<Rightarrow> resizer" where
  "legalCellPos i s = s\<lparr>legalize_requests := legalize_requests s @ [i]\<rparr>"

definition replaceCell :: "library \<Rightarrow> inst \<Rightarrow> cell \<Rightarrow> bool \<Rightarrow> resizer \<Rightarrow> bool \<times> resizer" where
  "replaceCell L i replacement journal s =
     (case findMaster L replacement of
        Some replacement_master \<Rightarrow>
          let master = inst_master (db s) i;
              s1 = designAreaIncr (- masterArea L master) s;
              s2 = (if journal then journalInstReplaceCellBefore L i s1 else s1);
              s3 = db_edit (swapMaster i replacement_master) s2;
              s4 = designAreaIncr (masterArea L replacement_master) s3;
              s5 = (if parasitics_src s4 = src_global_routing
                       \<or> parasitics_src s4 = src_detailed_routing
                    then legalCellPos i s4 else s4);
              s6 = (if haveEstimatedParasitics s5
                    then fold (\<lambda>p st. invalidateParasitics L p (pin_net (db st) p) st)
                           (instPins (db s5) i) s5
                    else s5)
          in (True, s6)
      | None \<Rightarrow> (False, s))"

text \<open>A sequence of resizes, each journalled, as the repair passes issue them inside a
  transaction.\<close>

fun replaceCells :: "library \<Rightarrow> (inst \<times> cell) list \<Rightarrow> resizer \<Rightarrow> resizer" where
  "replaceCells L [] s = s"
| "replaceCells L ((i, c) # ops) s = replaceCells L ops (snd (replaceCell L i c True s))"

section \<open>Removing a buffer\<close>

definition hasPort :: "netlist \<Rightarrow> net option \<Rightarrow> bool" where
  "hasPort nl n = (case n of None \<Rightarrow> False
     | Some n' \<Rightarrow> list_ex (\<lambda>p. pin_isBTerm nl p \<and> pin_net nl p = Some n') (nl_pins nl))"

definition bufferBetweenPorts :: "library \<Rightarrow> netlist \<Rightarrow> inst \<Rightarrow> error + bool" where
  "bufferBetweenPorts L nl buffer =
     (case libertyCell L nl buffer of
        None \<Rightarrow> Inl NullDeref
      | Some lib_cell \<Rightarrow>
          let in_pin = findPin L nl buffer (fst (bufferPorts L lib_cell));
              out_pin = findPin L nl buffer (snd (bufferPorts L lib_cell));
              in_net = net_of nl in_pin;
              out_net = net_of nl out_pin
          in Inr (hasPort nl in_net \<and> hasPort nl out_net))"

text \<open>
  Modelled from the spec: the primitives of the database and of the timing network
  (\<^verbatim>\<open>dbNet::mergeNet\<close>, \<^verbatim>\<open>disconnectPin\<close>, \<^verbatim>\<open>deleteInstance\<close>, \<^verbatim>\<open>deleteNet\<close>,
  \<^verbatim>\<open>setDoNotTouch\<close>, \<^verbatim>\<open>setPlacementStatus\<close>) are not among the sources. The spec: a pin
  is connected to at most one net; disconnecting a disconnected pin is a no-op; a merge
  rewires every pin of the merged net onto the surviving net.
\<close>

definition mergeNet :: "net \<Rightarrow> net \<Rightarrow> netlist \<Rightarrow> netlist" where
  "mergeNet survivor removed nl =
     nl\<lparr>pin_net := (\<lambda>p. if pin_net nl p = Some removed then Some survivor else pin_net nl p)\<rparr>"

definition disconnectPin :: "pin option \<Rightarrow> netlist \<Rightarrow> netlist" where
  "disconnectPin p nl = (case p of None \<Rightarrow> nl | Some q \<Rightarrow> nl\<lparr>pin_net := (pin_net nl)(q := None)\<rparr>)"

definition deleteInstance :: "inst \<Rightarrow> netlist \<Rightarrow> netlist" where
  "deleteInstance i nl =
     nl\<lparr>nl_insts := nl_insts nl - {i},
        nl_pins := filter (\<lambda>p. pin_isBTerm nl p \<or> pin_inst nl p \<noteq> i) (nl_pins nl),
        pin_net := (\<lambda>p. if pin_isBTerm nl p \<or> pin_inst nl p \<noteq> i then pin_net nl p else None)\<rparr>"

definition deleteNet :: "net \<Rightarrow> netlist \<Rightarrow> netlist" where
  "deleteNet n nl =
     nl\<lparr>nl_nets := nl_nets nl - {n},
        pin_net := (\<lambda>p. if pin_net nl p = Some n then None else pin_net nl p)\<rparr>"

definition setInstDoNotTouch :: "inst \<Rightarrow> bool \<Rightarrow> netlist \<Rightarrow> netlist" where
  "setInstDoNotTouch i v nl = nl\<lparr>inst_doNotTouch := (inst_doNotTouch nl)(i := v)\<rparr>"

definition setNetDoNotTouch :: "net \<Rightarrow> bool \<Rightarrow> netlist \<Rightarrow> netlist" where
  "setNetDoNotTouch n v nl = nl\<lparr>net_doNotTouch := (net_doNotTouch nl)(n := v)\<rparr>"

definition setPlaced :: "inst \<Rightarrow> netlist \<Rightarrow> netlist" where
  "setPlaced i nl = nl\<lparr>inst_fixed := (inst_fixed nl)(i := False)\<rparr>"

definition isConstrainedPin :: "resizer \<Rightarrow> pin option \<Rightarrow> bool" where
  "isConstrainedPin s p = (case p of None \<Rightarrow> False | Some q \<Rightarrow> q \<in> sdc_pins s)"

definition isConstrainedNet :: "resizer \<Rightarrow> net \<Rightarrow> bool" where
  "isConstrainedNet s n = (n \<in> sdc_nets s)"

definition isConstrainedInst :: "resizer \<Rightarrow> inst \<Rightarrow> bool" where
  "isConstrainedInst s i = (i \<in> sdc_insts s)"

text \<open>The driver search of \<^verbatim>\<open>journalRemoveBuffer\<close>: the first pin of the input net
  that is not the buffer's input pin, else the last pin visited.\<close>

fun findDriver :: "pin \<Rightarrow> pin list \<Rightarrow> pin option \<Rightarrow> pin option" where
  "findDriver in_pin [] acc = acc"
| "findDriver in_pin (p # ps) acc = (if p \<noteq> in_pin then Some p else findDriver in_pin ps (Some p))"

definition journalRemoveBuffer :: "library \<Rightarrow> inst \<Rightarrow> resizer \<Rightarrow> resizer" where
  "journalRemoveBuffer L buffer s =
     (case libertyCell L (db s) buffer of
        None \<Rightarrow> s
      | Some lib_cell \<Rightarrow>
         (case bufferPorts L lib_cell of
            (Some in_port, Some out_port) \<Rightarrow>
              (case (findPin L (db s) buffer (Some in_port), findPin L (db s) buffer (Some out_port)) of
                 (Some in_pin, Some out_pin) \<Rightarrow>
                   (case (pin_net (db s) in_pin, pin_net (db s) out_pin) of
                      (Some in_net, Some out_net) \<Rightarrow>
                        (case findDriver in_pin (connectedPins (db s) in_net) None of
                           None \<Rightarrow> s
                         | Some drvr_pin \<Rightarrow>
                             let data = \<lparr>bd_lib_cell = lib_cell,
                                   bd_driver_pin = (inst_name (db s) (pin_inst (db s) drvr_pin),
                                                    pin_port_name (db s) drvr_pin),
                                   bd_load_pins =
                                     map (\<lambda>p. (inst_name (db s) (pin_inst (db s) p),
                                                pin_port_name (db s) p))
                                       (filter (\<lambda>p. p \<noteq> out_pin) (connectedPins (db s) out_net)),
                                   bd_location = inst_location (db s) buffer,
                                   bd_parent = topInstance (db s)\<rparr>
                             in s\<lparr>removed_buffer_map :=
                                    assign (inst_name (db s) buffer) data (removed_buffer_map s)\<rparr>)
                    | _ \<Rightarrow> s)
               | _ \<Rightarrow> s)
          | _ \<Rightarrow> s))"

text \<open>
  Lines 354 to 399 of \<^verbatim>\<open>removeBuffer\<close>. Both nets have been dereferenced before
  (\<^verbatim>\<open>isDoNotTouch\<close>), so they are nets here, not options, and the test \<^verbatim>\<open>if (removed)\<close>
  holds.
\<close>

definition removeBuffer_merge ::
  "library \<Rightarrow> (net set \<Rightarrow> net set) \<Rightarrow> inst \<Rightarrow> bool \<Rightarrow> pin option \<Rightarrow> pin option \<Rightarrow> net \<Rightarrow> net
     \<Rightarrow> resizer \<Rightarrow> bool \<times> resizer" where
  "removeBuffer_merge L upd buffer recordJournal in_pin out_pin in_net out_net s =
     (let out_net_ports = hasPort (db s) (Some out_net) in
      if out_net_ports \<and> hasPort (db s) (Some in_net) then (False, s)
      else
        let survivor = (if out_net_ports then out_net else in_net);
            removed = (if out_net_ports then in_net else out_net);
            s1 = (if recordJournal then journalRemoveBuffer L buffer s else s)
        in if \<not> isConstrainedPin s1 in_pin \<and> \<not> isConstrainedPin s1 out_pin
              \<and> \<not> isConstrainedNet s1 removed \<and> \<not> isConstrainedInst s1 buffer
           then
             let s2 = db_edit (mergeNet survivor removed) s1;
                 s3 = db_edit (disconnectPin in_pin) s2;
                 s4 = db_edit (disconnectPin out_pin) s3;
                 s5 = db_edit (deleteInstance buffer) s4;
                 s6 = db_edit (deleteNet removed) s5;
                 s7 = eraseParasitics removed s6;
                 s8 = parasiticsInvalid survivor s7
             in (True, updateParasitics upd s8)
           else (False, s1))"

definition removeBuffer ::
  "library \<Rightarrow> (net set \<Rightarrow> net set) \<Rightarrow> inst \<Rightarrow> bool \<Rightarrow> bool \<Rightarrow> resizer
     \<Rightarrow> error + bool \<times> resizer" where
  "removeBuffer L upd buffer honorDontTouchFixed recordJournal s =
     (case libertyCell L (db s) buffer of
        None \<Rightarrow> Inr (False, s)
      | Some lib_cell \<Rightarrow>
          if \<not> isBuffer L lib_cell then Inr (False, s)
          else
            (case bufferBetweenPorts L (db s) buffer of
               Inl e \<Rightarrow> Inl e
             | Inr True \<Rightarrow> Inr (False, s)
             | Inr False \<Rightarrow>
                 if inst_doNotTouch (db s) buffer \<and> honorDontTouchFixed then Inr (False, s)
                 else
                   let s1 = (if inst_doNotTouch (db s) buffer
                             then db_edit (setInstDoNotTouch buffer False) s else s) in
                   if inst_fixed (db s1) buffer \<and> honorDontTouchFixed then Inr (False, s1)
                   else
                     let s2 = (if inst_fixed (db s1) buffer
                               then db_edit (setPlaced buffer) s1 else s1);
                         in_pin = findPin L (db s2) buffer (fst (bufferPorts L lib_cell));
                         out_pin = findPin L (db s2) buffer (snd (bufferPorts L lib_cell))
                     in
                       (case net_of (db s2) in_pin of
                          None \<Rightarrow> Inl NullDeref
                        | Some in_net \<Rightarrow>
                            if net_doNotTouch (db s2) in_net \<and> honorDontTouchFixed
                            then Inr (False, s2)
                            else
                              (case net_of (db s2) out_pin of
                                 None \<Rightarrow> Inl NullDeref
                               | Some out_net \<Rightarrow>
                                   if net_doNotTouch (db s2) in_net \<or> net_doNotTouch (db s2) out_net
                                   then
                                     if honorDontTouchFixed then Inr (False, s2)
                                     else Inr (removeBuffer_merge L upd buffer recordJournal
                                            in_pin out_pin in_net out_net
                                            (db_edit (setNetDoNotTouch out_net False)
                                              (db_edit (setNetDoNotTouch in_net False) s2)))
                                   else Inr (removeBuffer_merge L upd buffer recordJournal
                                          in_pin out_pin in_net out_net s2)))))"

section \<open>Gate delays\<close>

text \<open>The arcs that \<^verbatim>\<open>gateDelays\<close> visits for a driver port, in the order of the loops.\<close>

definition drvrArcs :: "library \<Rightarrow> port \<Rightarrow> timing_arc list" where
  "drvrArcs L drvr_port =
     concat (map set_arcs
       (filter (\<lambda>arc_set. set_to arc_set = drvr_port \<and> \<not> role_isTimingCheck arc_set)
          (timingArcSets L (portLibertyCell L drvr_port))))"

definition arcInSlew :: "resizer \<Rightarrow> timing_arc \<Rightarrow> real" where
  "arcInSlew s arc =
     (case input_slew_map s (arc_from arc) of
        Some slew \<Rightarrow> slew (arc_fromEdge arc)
      | None \<Rightarrow> tgt_slews s (arc_fromEdge arc))"

definition gateDelays_arc ::
  "library \<Rightarrow> resizer \<Rightarrow> real \<Rightarrow> timing_arc \<Rightarrow> (RiseFall \<Rightarrow> real) \<times> (RiseFall \<Rightarrow> real)
     \<Rightarrow> (RiseFall \<Rightarrow> real) \<times> (RiseFall \<Rightarrow> real)" where
  "gateDelays_arc L s load_cap arc ds =
     (let in_slew = arcInSlew s arc;
          dcalc_result = arcGateDelay L arc in_slew load_cap;
          gate_delay = fst dcalc_result;
          drvr_slew = snd dcalc_result;
          out_rf = arc_toEdge arc
      in ((fst ds)(out_rf := max (fst ds out_rf) gate_delay),
          (snd ds)(out_rf := max (snd ds out_rf) drvr_slew)))"

definition gateDelays ::
  "library \<Rightarrow> resizer \<Rightarrow> port \<Rightarrow> real \<Rightarrow> (RiseFall \<Rightarrow> real) \<times> (RiseFall \<Rightarrow> real)" where
  "gateDelays L s drvr_port load_cap =
     fold (gateDelays_arc L s load_cap) (drvrArcs L drvr_port) (\<lambda>rf. - sta_INF L, \<lambda>rf. - sta_INF L)"

definition bufferDelay :: "library \<Rightarrow> resizer \<Rightarrow> cell \<Rightarrow> real \<Rightarrow> error + real" where
  "bufferDelay L s buffer_cell load_cap =
     (case snd (bufferPorts L buffer_cell) of
        None \<Rightarrow> Inl NullDeref
      | Some output \<Rightarrow>
          let gate_delays = fst (gateDelays L s output load_cap)
          in Inr (max (gate_delays Rise) (gate_delays Fall)))"

section \<open>The sizing engine\<close>

definition targetLoadDist :: "real \<Rightarrow> real \<Rightarrow> real" where
  "targetLoadDist load_cap target_load = \<bar>load_cap - target_load\<bar>"

definition getSwappableCells :: "library \<Rightarrow> resizer \<Rightarrow> cell \<Rightarrow> cell list" where
  "getSwappableCells L s source_cell =
     (case equivCells L source_cell of
        None \<Rightarrow> []
      | Some equiv_cells \<Rightarrow>
          filter (\<lambda>equiv_cell.
              (if match_cell_footprint s
               then footprint L source_cell = footprint L equiv_cell else True)
            \<and> (if userFunctionClass L source_cell \<noteq> None
               then userFunctionClass L source_cell = userFunctionClass L equiv_cell else True))
            equiv_cells)"

definition dontUse :: "library \<Rightarrow> resizer \<Rightarrow> cell \<Rightarrow> bool" where
  "dontUse L s c = (cellDontUse L c \<or> c \<in> dont_use s)"

definition isLinkCell :: "library \<Rightarrow> cell \<Rightarrow> bool" where
  "isLinkCell L c = (findLibertyCell L (cellName L c) = Some c)"

text \<open>\<^verbatim>\<open>(*target_load_map_)[cell]\<close>: a cell without an entry reads as \<^verbatim>\<open>0.0\<close>.\<close>

definition targetLoad :: "resizer \<Rightarrow> cell \<Rightarrow> real" where
  "targetLoad s c = (case target_load_map s c of None \<Rightarrow> 0 | Some v \<Rightarrow> v)"

text \<open>The loop of \<^verbatim>\<open>findTargetCell\<close> over the swappable cells; the accumulator is
  \<open>(best_cell, best_dist, best_load, best_delay)\<close>.\<close>

fun findTargetCell_loop ::
  "library \<Rightarrow> resizer \<Rightarrow> bool \<Rightarrow> real \<Rightarrow> bool \<Rightarrow> cell list \<Rightarrow> cell \<times> real \<times> real \<times> real
     \<Rightarrow> error + cell \<times> real \<times> real \<times> real" where
  "findTargetCell_loop L s is_buf_inv load_cap revisiting_inst [] best = Inr best"
| "findTargetCell_loop L s is_buf_inv load_cap revisiting_inst (target_cell # rest)
       (best_cell, best_dist, best_load, best_delay) =
     (if \<not> dontUse L s target_cell \<and> isLinkCell L target_cell
      then
        let target_load = targetLoad s target_cell in
        (case (if is_buf_inv then bufferDelay L s target_cell load_cap else Inr 0) of
           Inl e \<Rightarrow> Inl e
         | Inr delay \<Rightarrow>
             let dist = targetLoadDist load_cap target_load in
             if (if is_buf_inv
                 then (delay < best_delay \<and> dist < best_dist * (11 / 10))
                      \<or> (dist < best_dist \<and> delay < best_delay * (11 / 10))
                 else dist < best_dist \<and> (\<not> revisiting_inst \<or> target_load > best_load))
             then findTargetCell_loop L s is_buf_inv load_cap revisiting_inst rest
                    (target_cell, dist, target_load, delay)
             else findTargetCell_loop L s is_buf_inv load_cap revisiting_inst rest
                    (best_cell, best_dist, best_load, best_delay))
      else findTargetCell_loop L s is_buf_inv load_cap revisiting_inst rest
             (best_cell, best_dist, best_load, best_delay))"

definition findTargetCell :: "library \<Rightarrow> resizer \<Rightarrow> cell \<Rightarrow> real \<Rightarrow> bool \<Rightarrow> error + cell" where
  "findTargetCell L s c load_cap revisiting_inst =
     (let swappable_cells = getSwappableCells L s c in
      if swappable_cells \<noteq> []
      then
        let is_buf_inv = (isBuffer L c \<or> isInverter L c);
            target_load = targetLoad s c;
            best_dist = targetLoadDist load_cap target_load
        in (case (if is_buf_inv then bufferDelay L s c load_cap else Inr 0) of
              Inl e \<Rightarrow> Inl e
            | Inr best_delay \<Rightarrow>
                (case findTargetCell_loop L s is_buf_inv load_cap revisiting_inst swappable_cells
                        (c, best_dist, target_load, best_delay) of
                   Inl e \<Rightarrow> Inl e
                 | Inr best \<Rightarrow> Inr (fst best)))
      else Inr c)"

definition dontTouch :: "netlist \<Rightarrow> inst \<Rightarrow> bool" where
  "dontTouch nl i = (inst_doNotTouch nl i \<or> inst_isPad nl i)"

definition isLogicStdCell :: "netlist \<Rightarrow> inst \<Rightarrow> bool" where
  "isLogicStdCell nl i = (i \<noteq> topInstance nl \<and> inst_isCore nl i)"

definition hasMultipleOutputs :: "library \<Rightarrow> netlist \<Rightarrow> inst \<Rightarrow> bool" where
  "hasMultipleOutputs L nl i =
     (length (filter (\<lambda>p. portIsAnyOutput L (libertyPort L nl p) \<and> pin_net nl p \<noteq> None)
                (instPins nl i)) > 1)"

text \<open>
  \<^verbatim>\<open>ensureWireParasitic\<close> and the load capacitance of the delay calculator are external:
  the first can only change the set of invalid nets (\<open>ewp\<close>), the second is a query
  (\<open>loadCap\<close>).
\<close>

definition resizeToTargetSlew ::
  "library \<Rightarrow> (pin \<Rightarrow> net set \<Rightarrow> net set) \<Rightarrow> (resizer \<Rightarrow> pin \<Rightarrow> real) \<Rightarrow> pin \<Rightarrow> resizer
     \<Rightarrow> error + int \<times> resizer" where
  "resizeToTargetSlew L ewp loadCap drvr_pin s =
     (let i = pin_inst (db s) drvr_pin;
          c = libertyCell L (db s) i
      in case c of
           None \<Rightarrow> Inr (0, s)
         | Some cell \<Rightarrow>
             if \<not> pin_isBTerm (db s) drvr_pin \<and> \<not> dontTouch (db s) i \<and> isLogicStdCell (db s) i
             then
               let multi = hasMultipleOutputs L (db s) i;
                   revisiting_inst = (multi \<and> i \<in> resized_multi_output_insts s);
                   s1 = (if multi
                         then s\<lparr>resized_multi_output_insts := insert i (resized_multi_output_insts s)\<rparr>
                         else s);
                   s2 = s1\<lparr>parasitics_invalid := ewp drvr_pin (parasitics_invalid s1)\<rparr>;
                   load_cap = loadCap s2 drvr_pin
               in if load_cap > 0
                  then
                    (case findTargetCell L s2 cell load_cap revisiting_inst of
                       Inl e \<Rightarrow> Inl e
                     | Inr target_cell \<Rightarrow>
                         if target_cell \<noteq> cell
                         then
                           let r = replaceCell L i target_cell True s2 in
                           if fst r \<and> \<not> revisiting_inst then Inr (1, snd r) else Inr (0, snd r)
                         else Inr (0, s2))
                  else Inr (0, s2)
             else Inr (0, s))"

section \<open>Target characterization\<close>








section \<open>A small design\<close>

text \<open>
  Three sizes of a two-input gate (cells 10, 11, 12) and of a buffer (cells 20, 21, 22),
  two of a register (cells 30, 31); the port of master \<open>m\<close> at position \<open>k\<close> is
  \<open>10 * m + k\<close>, positions 2 and 3 are outputs. The larger buffers are the slower ones.
  Instance 1 drives net 1 into the buffer (instance 2), whose output net 2 feeds instance
  3; pins 5 and 6 are top-level ports, unconnected at first; instance 4 is a register that
  drives nets 3 and 4.
\<close>

definition ex_library :: library where
  "ex_library =
     \<lparr>findMaster = (\<lambda>c. if c \<in> {10, 11, 12, 20, 21, 22, 30, 31} then Some c else None),
      masterLibertyCell = (\<lambda>m. if m \<in> {10, 11, 12, 20, 21, 22, 30, 31} then Some m else None),
      masterArea = (\<lambda>m. real m),
      masterIsFiller = (\<lambda>m. False),
      masterPort = (\<lambda>m k. 10 * m + k),
      isBuffer = (\<lambda>c. c \<in> {20, 21, 22}),
      isInverter = (\<lambda>c. False),
      bufferPorts = (\<lambda>c. if c \<in> {20, 21, 22} then (Some (10 * c + 1), Some (10 * c + 2))
                          else (None, None)),
      portIsAnyTristate = (\<lambda>p. False),
      portIsAnyOutput = (\<lambda>p. p mod 10 = 2 \<or> p mod 10 = 3),
      portLibertyCell = (\<lambda>p. p div 10),
      timingArcSets = (\<lambda>c.
        [\<lparr>set_to = 10 * c + 2, role_isTimingCheck = False,
          set_arcs = [\<lparr>arc_from = 10 * c + 1, arc_fromEdge = Rise, arc_toEdge = Rise, arc_id = c\<rparr>,
                      \<lparr>arc_from = 10 * c + 1, arc_fromEdge = Fall, arc_toEdge = Fall, arc_id = c\<rparr>]\<rparr>,
         \<lparr>set_to = 10 * c + 1, role_isTimingCheck = True,
          set_arcs = [\<lparr>arc_from = 10 * c, arc_fromEdge = Rise, arc_toEdge = Rise, arc_id = c\<rparr>]\<rparr>]),
      arcGateDelay = (\<lambda>arc in_slew load_cap.
        (real (arc_id arc mod 10) + 1 + (if arc_toEdge arc = Fall then 1 / 2 else 0),
         in_slew + load_cap)),
      arcGateModel = (\<lambda>arc. Some (\<lambda>in_slew load_cap. (0, load_cap))),
      sta_INF = 10 ^ 30,
      equivCells = (\<lambda>c. if c \<in> {10, 11, 12} then Some [10, 11, 12]
                         else if c \<in> {20, 21, 22} then Some [20, 21, 22]
                         else if c \<in> {30, 31} then Some [30, 31] else None),
      footprint = (\<lambda>c. None),
      userFunctionClass = (\<lambda>c. None),
      cellDontUse = (\<lambda>c. False),
      cellName = (\<lambda>c. replicate c (CHR ''c'')),
      findLibertyCell = (\<lambda>n. Some (length n))\<rparr>"

definition ex_netlist :: netlist where
  "ex_netlist =
     \<lparr>nl_insts = {1, 2, 3, 4},
      nl_nets = {1, 2, 3, 4},
      nl_pins = [1, 2, 3, 4, 5, 6, 7, 8],
      pin_inst = (\<lambda>p. if p = 1 then 1 else if p = 2 \<or> p = 3 then 2 else if p = 4 then 3
                      else if p = 7 \<or> p = 8 then 4 else 0),
      pin_pos = (\<lambda>p. if p = 1 \<or> p = 3 \<or> p = 7 then 2 else if p = 2 then 1
                     else if p = 8 then 3 else 0),
      pin_isBTerm = (\<lambda>p. p = 5 \<or> p = 6),
      pin_net = (\<lambda>p. if p = 1 \<or> p = 2 then Some 1 else if p = 3 \<or> p = 4 then Some 2
                     else if p = 7 then Some 3 else if p = 8 then Some 4 else None),
      inst_master = (\<lambda>i. if i = 2 then 20 else if i = 4 then 30 else 10),
      inst_isCore = (\<lambda>i. i \<noteq> 0),
      inst_isPad = (\<lambda>i. False),
      inst_doNotTouch = (\<lambda>i. False),
      inst_fixed = (\<lambda>i. False),
      inst_location = (\<lambda>i. (0, 0)),
      inst_name = (\<lambda>i. replicate i (CHR ''i'')),
      pin_port_name = (\<lambda>p. replicate p (CHR ''p'')),
      net_doNotTouch = (\<lambda>n. False),
      topInstance = 0\<rparr>"

definition ex_resizer :: resizer where
  "ex_resizer =
     \<lparr>db = ex_netlist,
      eco_active = False,
      eco_journal = [],
      callback_registered = True,
      incremental_parasitics_enabled = False,
      parasitics_src = src_placement,
      parasitics_invalid = {},
      design_area = 0,
      legalize_requests = [],
      sdc_pins = {},
      sdc_nets = {},
      sdc_insts = {},
      dont_use = {},
      match_cell_footprint = False,
      target_load_map = (\<lambda>c. if c = 10 \<or> c = 20 \<or> c = 30 then Some (2 / 10 ^ 15)
                              else if c = 11 \<or> c = 21 \<or> c = 31 then Some (5 / 10 ^ 15)
                              else if c = 12 \<or> c = 22 then Some (9 / 10 ^ 15) else None),
      tgt_slews = (\<lambda>rf. 1 / 10 ^ 10),
      input_slew_map = (\<lambda>p. None),
      resized_multi_output_insts = {},
      resized_inst_map = [],
      all_sized_inst_set = {},
      inserted_buffers = [],
      inserted_buffer_set = {},
      all_inserted_buffer_set = {},
      cloned_gates = [],
      cloned_inst_set = {},
      swapped_pins = [],
      all_swapped_pin_inst_set = {},
      removed_buffer_map = []\<rparr>"

definition ex_counters :: counters where
  "ex_counters = \<lparr>resize_count = 7, inserted_buffer_count = 4, cloned_gate_count = 3,
                   swap_pin_count = 2, removed_buffer_count = 1\<rparr>"

text \<open>The same design inside an open transaction that has resized instances 1 and 2,
  inserted buffer 9 and swapped two pins of instance 3.\<close>

definition ex_transaction :: resizer where
  "ex_transaction =
     ex_resizer\<lparr>eco_active := True, eco_journal := [ex_netlist],
       resized_inst_map := [(1, Some 10), (2, Some 20)],
       inserted_buffers := [9],
       swapped_pins := [(3, 100, 101)]\<rparr>"



definition ex_self_loop :: resizer where
  "ex_self_loop = ex_resizer\<lparr>db := ex_netlist\<lparr>pin_net := (pin_net ex_netlist)(3 := Some 1)\<rparr>\<rparr>"

definition ex_constrained :: resizer where
  "ex_constrained = ex_resizer\<lparr>sdc_pins := {3}\<rparr>"

definition ex_revisit :: resizer where
  "ex_revisit = ex_resizer\<lparr>resized_multi_output_insts := {4}\<rparr>"

text \<open>The structure of a netlist: what exists and what is connected to what.\<close>

definition connectivity ::
  "netlist \<Rightarrow> inst set \<times> net set \<times> pin list \<times> (pin \<Rightarrow> net option) \<times> (inst \<Rightarrow> master)" where
  "connectivity nl = (nl_insts nl, nl_nets nl, nl_pins nl, pin_net nl, inst_master nl)"









section \<open>The journal: restore and the resize log\<close>

lemma map_of_assign: "map_of (assign k v m) = (map_of m)(k \<mapsto> v)"
  by (induction m) (auto simp: fun_eq_iff)

lemma keys_assign: "fst ` set (assign k v m) = insert k (fst ` set m)"
  using arg_cong[OF map_of_assign[of k v m], of dom]
  by (simp add: dom_map_of_conv_image_fst)

lemma distinct_assign: "distinct (map fst m) \<Longrightarrow> distinct (map fst (assign k v m))"
  by (induction m) (auto simp: keys_assign)

lemma journalInstReplaceCellBefore_distinct:
  "distinct (map fst (resized_inst_map s))
     \<Longrightarrow> distinct (map fst (resized_inst_map (journalInstReplaceCellBefore L i s)))"
  by (simp add: journalInstReplaceCellBefore_def Let_def distinct_assign)

text \<open>
  C1. When the ECO checkpoint recorded no edit, \<^verbatim>\<open>journalRestore\<close> closes the checkpoint
  (after \<^verbatim>\<open>init()\<close>) and returns the counters as they were. Otherwise each of the five counters is decremented
  (as a 32-bit integer) by the number of entries of its log: the map of resized instances,
  the list of inserted buffers, the stack of clone pairs, the map of instances with swapped
  pins, the map of removed buffers; and every log is empty afterwards.
\<close>

theorem journalRestore_counters:
  "(ecoEmpty s \<longrightarrow>
      journalRestore L upd cnt s
        = (cnt, (init L s)\<lparr>eco_active := False, incremental_parasitics_enabled := False\<rparr>))
   \<and> (\<not> ecoEmpty s \<longrightarrow>
      fst (journalRestore L upd cnt s)
        = \<lparr>resize_count = resize_count cnt - of_nat (length (resized_inst_map s)),
           inserted_buffer_count = inserted_buffer_count cnt - of_nat (length (inserted_buffers s)),
           cloned_gate_count = cloned_gate_count cnt - of_nat (length (cloned_gates s)),
           swap_pin_count = swap_pin_count cnt - of_nat (length (swapped_pins s)),
           removed_buffer_count = removed_buffer_count cnt - of_nat (length (removed_buffer_map s))\<rparr>
      \<and> resized_inst_map (snd (journalRestore L upd cnt s)) = []
      \<and> inserted_buffers (snd (journalRestore L upd cnt s)) = []
      \<and> inserted_buffer_set (snd (journalRestore L upd cnt s)) = {}
      \<and> cloned_gates (snd (journalRestore L upd cnt s)) = []
      \<and> cloned_inst_set (snd (journalRestore L upd cnt s)) = {}
      \<and> swapped_pins (snd (journalRestore L upd cnt s)) = []
      \<and> removed_buffer_map (snd (journalRestore L upd cnt s)) = [])"
  by (simp add: journalRestore_def Let_def ecoEmpty_def endEco_def undoEco_def init_def
        initDesignArea_def incrementalParasiticsEnd_def incrementalParasiticsBegin_def
        updateParasitics_def)

theorem journalRestore_counters_witness:
  "\<not> ecoEmpty ex_transaction
   \<and> fst (journalRestore ex_library id ex_counters ex_transaction)
       = \<lparr>resize_count = 5, inserted_buffer_count = 3, cloned_gate_count = 3,
          swap_pin_count = 1, removed_buffer_count = 1\<rparr>
   \<and> resized_inst_map (snd (journalRestore ex_library id ex_counters ex_transaction)) = []
   \<and> ecoEmpty ex_resizer
   \<and> fst (journalRestore ex_library id ex_counters ex_resizer) = ex_counters
   \<and> \<not> eco_active (snd (journalRestore ex_library id ex_counters ex_resizer))"
  using journalRestore_counters[of ex_transaction ex_library id ex_counters]
    journalRestore_counters[of ex_resizer ex_library id ex_counters]
  by (simp add: ex_transaction_def ex_counters_def ecoEmpty_def ex_resizer_def)

lemma fold_invalidate_db:
  "db (fold (\<lambda>p st. invalidateParasitics L p (pin_net (db st) p) st) ps s) = db s"
  by (induction ps arbitrary: s)
     (auto simp: invalidateParasitics_def parasiticsInvalid_def split: option.splits)

lemma fold_invalidate_resized:
  "resized_inst_map (fold (\<lambda>p st. invalidateParasitics L p (pin_net (db st) p) st) ps s)
     = resized_inst_map s"
  by (induction ps arbitrary: s)
     (auto simp: invalidateParasitics_def parasiticsInvalid_def split: option.splits)

lemma replaceCell_resized_map:
  "resized_inst_map (snd (replaceCell L j c True s)) =
     (case findMaster L c of None \<Rightarrow> resized_inst_map s
      | Some m \<Rightarrow> if hasKey (resized_inst_map s) j then resized_inst_map s
                  else assign j (libertyCell L (db s) j) (resized_inst_map s))"
  by (simp add: replaceCell_def Let_def fold_invalidate_resized legalCellPos_def designAreaIncr_def
        db_edit_def journalInstReplaceCellBefore_def split: option.splits)

lemma replaceCell_inst_master:
  "inst_master (db (snd (replaceCell L j c jr s))) =
     (case findMaster L c of None \<Rightarrow> inst_master (db s)
      | Some m \<Rightarrow> (inst_master (db s))(j := m))"
  by (simp add: replaceCell_def Let_def fold_invalidate_db legalCellPos_def designAreaIncr_def
        db_edit_def journalInstReplaceCellBefore_def swapMaster_def split: option.splits)

text \<open>
  C8. Inside a transaction, after any sequence of journalled resizes, the resize log holds
  for an instance: the entry it already had, if it had one (a later resize never overwrites
  it); otherwise, if some resize of the instance in the sequence found its master, the cell
  the instance was bound to before the first of them; otherwise nothing.
\<close>

theorem resize_log_first_wins:
  "map_of (resized_inst_map (replaceCells L ops s)) i =
     (if hasKey (resized_inst_map s) i then map_of (resized_inst_map s) i
      else if \<exists>c. (i, c) \<in> set ops \<and> findMaster L c \<noteq> None
           then Some (libertyCell L (db s) i)
           else None)"
proof (induction ops arbitrary: s)
  case Nil
  then show ?case by (simp add: hasKey_def)
next
  case (Cons op ops)
  obtain j c where op: "op = (j, c)" by (cases op)
  let ?s' = "snd (replaceCell L j c True s)"
  show ?case
  proof (cases "findMaster L c")
    case None
    then have "?s' = s" by (simp add: replaceCell_def)
    with Cons.IH[of s] None op show ?thesis by auto
  next
    case (Some m)
    have lc: "j \<noteq> i \<Longrightarrow> libertyCell L (db ?s') i = libertyCell L (db s) i"
      by (simp add: libertyCell_def replaceCell_inst_master Some)
    show ?thesis
      using Cons.IH[of ?s'] Some op lc
      by (auto simp: replaceCell_resized_map hasKey_def map_of_assign)
  qed
qed

theorem resize_log_first_wins_witness:
  "map_of (resized_inst_map
      (replaceCells ex_library [(1, 11), (2, 21), (1, 12)] (journalBegin ex_resizer))) 1
     = Some (Some 10)"
proof -
  have a: "\<not> hasKey (resized_inst_map (journalBegin ex_resizer)) 1"
    by (simp add: hasKey_def journalBegin_def Let_def)
  have b: "\<exists>c. (1, c) \<in> set [(1::nat, 11::nat), (2, 21), (1, 12)] \<and> findMaster ex_library c \<noteq> None"
    by (rule exI[of _ 11]) (simp add: ex_library_def)
  have c: "libertyCell ex_library (db (journalBegin ex_resizer)) 1 = Some 10"
    by (simp add: journalBegin_def Let_def beginEco_def incrementalParasiticsBegin_def
          libertyCell_def ex_resizer_def ex_netlist_def ex_library_def)
  show ?thesis
    using resize_log_first_wins[of ex_library "[(1, 11), (2, 21), (1, 12)]"
            "journalBegin ex_resizer" 1] a b c
    by (simp only: if_True if_False)
qed

section \<open>The parasitics invalidation tracker: frame\<close>



section \<open>Removing a buffer: what is rejected, what is removed\<close>

lemmas nl_defs = libertyCell_def findPin_def libertyPort_def net_of_def hasPort_def
  connectedPins_def instPins_def
lemmas ex_defs = ex_library_def ex_netlist_def ex_resizer_def


lemma journalRemoveBuffer_frame:
  "journalRemoveBuffer L b s = s\<lparr>removed_buffer_map := removed_buffer_map (journalRemoveBuffer L b s)\<rparr>"
  by (simp add: journalRemoveBuffer_def Let_def split: option.splits prod.splits)

lemma journalRemoveBuffer_fields:
  "db (journalRemoveBuffer L b s) = db s"
  "sdc_pins (journalRemoveBuffer L b s) = sdc_pins s"
  "sdc_nets (journalRemoveBuffer L b s) = sdc_nets s"
  "sdc_insts (journalRemoveBuffer L b s) = sdc_insts s"
  "parasitics_invalid (journalRemoveBuffer L b s) = parasitics_invalid s"
  "eco_active (journalRemoveBuffer L b s) = eco_active s"
  "eco_journal (journalRemoveBuffer L b s) = eco_journal s"
  by (subst journalRemoveBuffer_frame, simp)+

lemma isConstrained_journalRemoveBuffer:
  "isConstrainedPin (journalRemoveBuffer L b s) p = isConstrainedPin s p"
  "isConstrainedNet (journalRemoveBuffer L b s) n = isConstrainedNet s n"
  "isConstrainedInst (journalRemoveBuffer L b s) i = isConstrainedInst s i"
  by (simp_all add: isConstrainedPin_def isConstrainedNet_def isConstrainedInst_def
        journalRemoveBuffer_fields split: option.splits)

lemma removeBuffer_merge_constrained:
  assumes "isConstrainedPin s in_pin \<or> isConstrainedPin s out_pin
           \<or> isConstrainedNet s (if hasPort (db s) (Some out_net) then in_net else out_net)
           \<or> isConstrainedInst s buffer"
  shows "removeBuffer_merge L upd buffer recordJournal in_pin out_pin in_net out_net s
         = (False, if hasPort (db s) (Some out_net) \<and> hasPort (db s) (Some in_net) then s
                   else if recordJournal then journalRemoveBuffer L buffer s else s)"
  using assms
  by (auto simp: removeBuffer_merge_def Let_def isConstrained_journalRemoveBuffer)

lemma findPin_flags:
  "findPin L (setInstDoNotTouch i v nl) = findPin L nl"
  "findPin L (setPlaced i nl) = findPin L nl"
  "findPin L (setNetDoNotTouch n v nl) = findPin L nl"
  by (simp_all add: fun_eq_iff findPin_def libertyPort_def setInstDoNotTouch_def setPlaced_def
        setNetDoNotTouch_def split: option.splits)

lemma net_of_flags:
  "net_of (setInstDoNotTouch i v nl) = net_of nl"
  "net_of (setPlaced i nl) = net_of nl"
  "net_of (setNetDoNotTouch n v nl) = net_of nl"
  by (simp_all add: fun_eq_iff net_of_def setInstDoNotTouch_def setPlaced_def setNetDoNotTouch_def
        split: option.splits)

lemma hasPort_flags:
  "hasPort (setInstDoNotTouch i v nl) = hasPort nl"
  "hasPort (setPlaced i nl) = hasPort nl"
  "hasPort (setNetDoNotTouch n v nl) = hasPort nl"
  by (simp_all add: fun_eq_iff hasPort_def setInstDoNotTouch_def setPlaced_def setNetDoNotTouch_def
        split: option.splits)

lemma isConstrained_db_edit:
  "isConstrainedPin (db_edit f s) p = isConstrainedPin s p"
  "isConstrainedNet (db_edit f s) n = isConstrainedNet s n"
  "isConstrainedInst (db_edit f s) i = isConstrainedInst s i"
  by (simp_all add: isConstrainedPin_def isConstrainedNet_def isConstrainedInst_def db_edit_def
        split: option.splits)

lemma db_db_edit: "db (db_edit f s) = f (db s)"
  by (simp add: db_edit_def)

lemma connectivity_flags:
  "connectivity (setInstDoNotTouch i v nl) = connectivity nl"
  "connectivity (setPlaced i nl) = connectivity nl"
  "connectivity (setNetDoNotTouch n v nl) = connectivity nl"
  by (simp_all add: connectivity_def setInstDoNotTouch_def setPlaced_def setNetDoNotTouch_def)

lemma flags_db_edit:
  "inst_fixed (setInstDoNotTouch b v nl) = inst_fixed nl"
  "net_doNotTouch (setInstDoNotTouch b v nl) = net_doNotTouch nl"
  "net_doNotTouch (setPlaced b nl) = net_doNotTouch nl"
  by (simp_all add: setInstDoNotTouch_def setPlaced_def)

text \<open>The checks of \<^verbatim>\<open>removeBuffer\<close> before the merge, for a buffer with both nets,
  not between two ports.\<close>

lemma removeBuffer_checks:
  assumes lc: "libertyCell L (db s) buffer = Some c" and buf: "isBuffer L c"
    and bbp: "bufferBetweenPorts L (db s) buffer = Inr False"
    and inn: "net_of (db s) (findPin L (db s) buffer (fst (bufferPorts L c))) = Some in_net"
    and outn: "net_of (db s) (findPin L (db s) buffer (snd (bufferPorts L c))) = Some out_net"
  shows "removeBuffer L upd buffer honorDontTouchFixed recordJournal s =
     (if inst_doNotTouch (db s) buffer \<or> inst_fixed (db s) buffer
         \<or> net_doNotTouch (db s) in_net \<or> net_doNotTouch (db s) out_net
      then if honorDontTouchFixed then Inr (False, s)
           else Inr (removeBuffer_merge L upd buffer recordJournal
                  (findPin L (db s) buffer (fst (bufferPorts L c)))
                  (findPin L (db s) buffer (snd (bufferPorts L c))) in_net out_net
                  (let s1 = (if inst_doNotTouch (db s) buffer
                             then db_edit (setInstDoNotTouch buffer False) s else s);
                       s2 = (if inst_fixed (db s) buffer then db_edit (setPlaced buffer) s1 else s1)
                   in if net_doNotTouch (db s) in_net \<or> net_doNotTouch (db s) out_net
                      then db_edit (setNetDoNotTouch out_net False)
                             (db_edit (setNetDoNotTouch in_net False) s2)
                      else s2))
      else Inr (removeBuffer_merge L upd buffer recordJournal
             (findPin L (db s) buffer (fst (bufferPorts L c)))
             (findPin L (db s) buffer (snd (bufferPorts L c))) in_net out_net s))"
  using assms
  by (cases honorDontTouchFixed; cases "inst_doNotTouch (db s) buffer";
      cases "inst_fixed (db s) buffer"; cases "net_doNotTouch (db s) in_net";
      cases "net_doNotTouch (db s) out_net")
     (simp_all add: removeBuffer_def Let_def flags_db_edit db_db_edit findPin_flags net_of_flags)






text \<open>
  C10. A buffer with both nets that passes the buffer-cell and port-boundary checks and
  the don't-touch and fixed-placement checks (in the honouring mode none of the flags is
  set; in the other mode the flags are cleared), and that has a timing constraint on its
  input pin, its output pin, the net to be removed or the instance: \<^verbatim>\<open>removeBuffer\<close>
  returns false, the instances, nets, pins, connections and masters are as before, and so
  is the set of invalid nets; in the honouring mode the database is untouched.
\<close>

theorem removeBuffer_constrained:
  assumes lc: "libertyCell L (db s) buffer = Some c" and buf: "isBuffer L c"
    and ip: "in_pin = findPin L (db s) buffer (fst (bufferPorts L c))"
    and op: "out_pin = findPin L (db s) buffer (snd (bufferPorts L c))"
    and inn: "net_of (db s) in_pin = Some in_net"
    and outn: "net_of (db s) out_pin = Some out_net"
    and ports: "\<not> (hasPort (db s) (Some in_net) \<and> hasPort (db s) (Some out_net))"
    and flags: "honorDontTouchFixed \<longrightarrow>
                  \<not> inst_doNotTouch (db s) buffer \<and> \<not> inst_fixed (db s) buffer
                  \<and> \<not> net_doNotTouch (db s) in_net \<and> \<not> net_doNotTouch (db s) out_net"
    and sdc: "isConstrainedPin s in_pin \<or> isConstrainedPin s out_pin
              \<or> isConstrainedNet s (if hasPort (db s) (Some out_net) then in_net else out_net)
              \<or> isConstrainedInst s buffer"
  shows "\<exists>s'. removeBuffer L upd buffer honorDontTouchFixed recordJournal s = Inr (False, s')
           \<and> connectivity (db s') = connectivity (db s)
           \<and> parasitics_invalid s' = parasitics_invalid s
           \<and> (honorDontTouchFixed \<longrightarrow> db s' = db s)"
proof -
  define s3 where "s3 =
     (let s1 = (if inst_doNotTouch (db s) buffer
                then db_edit (setInstDoNotTouch buffer False) s else s);
          s2 = (if inst_fixed (db s) buffer then db_edit (setPlaced buffer) s1 else s1)
      in if net_doNotTouch (db s) in_net \<or> net_doNotTouch (db s) out_net
         then db_edit (setNetDoNotTouch out_net False) (db_edit (setNetDoNotTouch in_net False) s2)
         else s2)"
  have hp: "hasPort (db s3) = hasPort (db s)"
    by (simp add: s3_def Let_def db_db_edit hasPort_flags)
  have st: "connectivity (db s3) = connectivity (db s)"
    by (simp add: s3_def Let_def db_db_edit connectivity_flags)
  have pi: "parasitics_invalid s3 = parasitics_invalid s"
    by (simp add: s3_def Let_def db_edit_def)
  have ic: "isConstrainedPin s3 = isConstrainedPin s" "isConstrainedNet s3 = isConstrainedNet s"
      "isConstrainedInst s3 = isConstrainedInst s"
    by (simp_all add: fun_eq_iff s3_def Let_def isConstrained_db_edit)
  have noflags: "\<not> (inst_doNotTouch (db s) buffer \<or> inst_fixed (db s) buffer
         \<or> net_doNotTouch (db s) in_net \<or> net_doNotTouch (db s) out_net) \<Longrightarrow> s3 = s"
    by (simp add: s3_def)
  have bbp: "bufferBetweenPorts L (db s) buffer = Inr False"
    using lc ip op inn outn ports by (simp add: bufferBetweenPorts_def Let_def)
  have rb: "removeBuffer L upd buffer honorDontTouchFixed recordJournal s
            = Inr (removeBuffer_merge L upd buffer recordJournal in_pin out_pin in_net out_net s3)"
    using removeBuffer_checks[OF lc buf bbp inn[unfolded ip] outn[unfolded op],
            of upd honorDontTouchFixed recordJournal] flags noflags
    by (auto simp: ip op s3_def)
  have mg: "removeBuffer_merge L upd buffer recordJournal in_pin out_pin in_net out_net s3
            = (False, if recordJournal then journalRemoveBuffer L buffer s3 else s3)"
    using removeBuffer_merge_constrained[of s3 in_pin out_pin out_net in_net buffer L upd recordJournal]
      sdc ports by (auto simp: hp ic)
  have honor: "honorDontTouchFixed \<Longrightarrow> s3 = s"
    using flags noflags by blast
  show ?thesis
    using rb mg st pi honor
    by (auto simp: journalRemoveBuffer_fields)
qed

theorem removeBuffer_constrained_witness:
  "map_sum id (\<lambda>r. (fst r, db (snd r))) (removeBuffer ex_library id 2 True False ex_constrained)
     = Inr (False, ex_netlist)"
proof -
  have a: "libertyCell ex_library (db ex_constrained) 2 = Some 20" "isBuffer ex_library 20"
    "findPin ex_library (db ex_constrained) 2 (fst (bufferPorts ex_library 20)) = Some 2"
    "findPin ex_library (db ex_constrained) 2 (snd (bufferPorts ex_library 20)) = Some 3"
    "net_of (db ex_constrained) (Some 2) = Some 1"
    "net_of (db ex_constrained) (Some 3) = Some 2"
    "\<not> hasPort (db ex_constrained) (Some 1)" "\<not> hasPort (db ex_constrained) (Some 2)"
    "\<not> inst_doNotTouch (db ex_constrained) 2" "\<not> inst_fixed (db ex_constrained) 2"
    "\<not> net_doNotTouch (db ex_constrained) 1" "\<not> net_doNotTouch (db ex_constrained) 2"
    "isConstrainedPin ex_constrained (Some 3)"
    by (simp_all add: nl_defs ex_defs ex_constrained_def isConstrainedPin_def)
  obtain s' where s': "removeBuffer ex_library id 2 True False ex_constrained = Inr (False, s')"
       "db s' = db ex_constrained"
    using removeBuffer_constrained[of ex_library ex_constrained 2 20 "Some 2" "Some 3" 1 2 True id False] a
    by auto
  show ?thesis
    using s' by (simp add: ex_constrained_def ex_resizer_def)
qed

lemma merged_netlist:
  assumes "survivor \<noteq> removed"
    and "nl' = deleteNet removed (deleteInstance buffer (disconnectPin (Some op)
                 (disconnectPin (Some ip) (mergeNet survivor removed nl))))"
  shows "nl_nets nl' = nl_nets nl - {removed}"
    and "nl_insts nl' = nl_insts nl - {buffer}"
    and "pin_net nl' p =
         (if p = ip \<or> p = op \<or> (\<not> pin_isBTerm nl p \<and> pin_inst nl p = buffer) then None
          else if pin_net nl p = Some removed then Some survivor
          else pin_net nl p)"
  using assms
  by (simp_all add: mergeNet_def disconnectPin_def deleteInstance_def deleteNet_def)

lemma removeBuffer_merge_removes:
  assumes ports: "\<not> (hasPort (db s) (Some in_net) \<and> hasPort (db s) (Some out_net))"
    and sdc: "\<not> isConstrainedPin s ip" "\<not> isConstrainedPin s op"
      "\<not> isConstrainedNet s (if hasPort (db s) (Some out_net) then in_net else out_net)"
      "\<not> isConstrainedInst s buffer"
    and sv: "survivor = (if hasPort (db s) (Some out_net) then out_net else in_net)"
    and rm: "removed = (if hasPort (db s) (Some out_net) then in_net else out_net)"
    and s1: "s1 = (if recordJournal then journalRemoveBuffer L buffer s else s)"
  shows "removeBuffer_merge L upd buffer recordJournal ip op in_net out_net s =
      (True, updateParasitics upd (parasiticsInvalid survivor (eraseParasitics removed
         (db_edit (deleteNet removed) (db_edit (deleteInstance buffer) (db_edit (disconnectPin op)
           (db_edit (disconnectPin ip) (db_edit (mergeNet survivor removed) s1))))))))"
  using assms
  by (cases "hasPort (db s) (Some out_net)"; cases recordJournal)
     (simp_all add: removeBuffer_merge_def Let_def isConstrained_journalRemoveBuffer
        journalRemoveBuffer_fields)

lemma removeBuffer_merge_effect:
  assumes ports: "\<not> (hasPort (db s) (Some in_net) \<and> hasPort (db s) (Some out_net))"
    and sdc: "\<not> isConstrainedPin s (Some ip)" "\<not> isConstrainedPin s (Some op)"
      "\<not> isConstrainedNet s (if hasPort (db s) (Some out_net) then in_net else out_net)"
      "\<not> isConstrainedInst s buffer"
    and ne: "in_net \<noteq> out_net"
    and sv: "survivor = (if hasPort (db s) (Some out_net) then out_net else in_net)"
    and rm: "removed = (if hasPort (db s) (Some out_net) then in_net else out_net)"
    and res: "r = removeBuffer_merge L upd buffer recordJournal (Some ip) (Some op) in_net out_net s"
  shows "fst r"
    and "nl_nets (db (snd r)) = nl_nets (db s) - {removed}"
    and "nl_insts (db (snd r)) = nl_insts (db s) - {buffer}"
    and "pin_net (db (snd r)) p =
         (if p = ip \<or> p = op \<or> (\<not> pin_isBTerm (db s) p \<and> pin_inst (db s) p = buffer) then None
          else if pin_net (db s) p = Some removed then Some survivor
          else pin_net (db s) p)"
    and "parasitics_invalid (snd r) = upd (insert survivor (parasitics_invalid s - {removed}))"
proof -
  define s1 where "s1 = (if recordJournal then journalRemoveBuffer L buffer s else s)"
  have d1: "db s1 = db s" "parasitics_invalid s1 = parasitics_invalid s"
    by (simp_all add: s1_def journalRemoveBuffer_fields)
  have ne': "survivor \<noteq> removed" using ne sv rm by auto
  note eq = removeBuffer_merge_removes[OF ports sdc sv rm s1_def, of upd]
  have dbr: "db (snd r) = deleteNet removed (deleteInstance buffer (disconnectPin (Some op)
                 (disconnectPin (Some ip) (mergeNet survivor removed (db s)))))"
    by (simp add: res eq updateParasitics_def parasiticsInvalid_def eraseParasitics_def
          db_edit_def d1)
  show "fst r" by (simp add: res eq)
  show "nl_nets (db (snd r)) = nl_nets (db s) - {removed}"
    using merged_netlist(1)[OF ne' dbr] .
  show "nl_insts (db (snd r)) = nl_insts (db s) - {buffer}"
    using merged_netlist(2)[OF ne' dbr] .
  show "pin_net (db (snd r)) p =
         (if p = ip \<or> p = op \<or> (\<not> pin_isBTerm (db s) p \<and> pin_inst (db s) p = buffer) then None
          else if pin_net (db s) p = Some removed then Some survivor
          else pin_net (db s) p)"
    using merged_netlist(3)[OF ne' dbr] .
  show "parasitics_invalid (snd r) = upd (insert survivor (parasitics_invalid s - {removed}))"
    by (simp add: res eq updateParasitics_def parasiticsInvalid_def eraseParasitics_def
          db_edit_def d1)
qed

text \<open>A buffer with two different nets, no flag and no constraint, not between two ports:
  \<^verbatim>\<open>removeBuffer\<close> removes it, the removed net and the instance are gone, the pins of the
  removed net are on the survivor, and the survivor is marked invalid before the update.\<close>

lemma removeBuffer_distinct_nets:
  assumes lc: "libertyCell L (db s) buffer = Some c" and buf: "isBuffer L c"
    and ip: "findPin L (db s) buffer (fst (bufferPorts L c)) = Some ip"
    and op: "findPin L (db s) buffer (snd (bufferPorts L c)) = Some op"
    and inn: "pin_net (db s) ip = Some in_net" and outn: "pin_net (db s) op = Some out_net"
    and ports: "\<not> (hasPort (db s) (Some in_net) \<and> hasPort (db s) (Some out_net))"
    and flags: "\<not> inst_doNotTouch (db s) buffer" "\<not> inst_fixed (db s) buffer"
      "\<not> net_doNotTouch (db s) in_net" "\<not> net_doNotTouch (db s) out_net"
    and sdc: "\<not> isConstrainedPin s (Some ip)" "\<not> isConstrainedPin s (Some op)"
      "\<not> isConstrainedNet s (if hasPort (db s) (Some out_net) then in_net else out_net)"
      "\<not> isConstrainedInst s buffer"
    and ne: "in_net \<noteq> out_net"
    and sv: "survivor = (if hasPort (db s) (Some out_net) then out_net else in_net)"
    and rm: "removed = (if hasPort (db s) (Some out_net) then in_net else out_net)"
  shows "\<exists>s'. removeBuffer L upd buffer honorDontTouchFixed recordJournal s = Inr (True, s')
     \<and> nl_nets (db s') = nl_nets (db s) - {removed}
     \<and> nl_insts (db s') = nl_insts (db s) - {buffer}
     \<and> (\<forall>p. pin_net (db s') p =
           (if p = ip \<or> p = op \<or> (\<not> pin_isBTerm (db s) p \<and> pin_inst (db s) p = buffer) then None
            else if pin_net (db s) p = Some removed then Some survivor
            else pin_net (db s) p))
     \<and> parasitics_invalid s' = upd (insert survivor (parasitics_invalid s - {removed}))"
proof -
  define r where
    "r = removeBuffer_merge L upd buffer recordJournal (Some ip) (Some op) in_net out_net s"
  have bbp: "bufferBetweenPorts L (db s) buffer = Inr False"
    using lc ip op inn outn ports by (simp add: bufferBetweenPorts_def Let_def net_of_def)
  have "removeBuffer L upd buffer honorDontTouchFixed recordJournal s = Inr r"
    using removeBuffer_checks[OF lc buf bbp, of in_net out_net upd honorDontTouchFixed recordJournal]
      ip op inn outn flags
    by (simp add: net_of_def r_def)
  moreover note removeBuffer_merge_effect[OF ports sdc ne sv rm r_def]
  ultimately show ?thesis
    by (cases r) auto
qed

text \<open>
  C5 fails for a buffer whose output is tied back to its own input net: survivor and
  removed net are the same net, which is deleted and then marked invalid; the driver of
  the buffer (pin 1) is left without a net.
\<close>

theorem removeBuffer_self_loop:
  "(case removeBuffer ex_library id 2 True False ex_self_loop of
      Inl e \<Rightarrow> False
    | Inr r \<Rightarrow> fst r \<and> 1 \<notin> nl_nets (db (snd r)) \<and> 1 \<in> parasitics_invalid (snd r)
               \<and> pin_net (db (snd r)) 1 = None)"
  by (simp add: removeBuffer_def bufferBetweenPorts_def removeBuffer_merge_def Let_def nl_defs ex_defs
      ex_self_loop_def isConstrainedPin_def isConstrainedNet_def isConstrainedInst_def
      db_edit_def mergeNet_def disconnectPin_def deleteInstance_def
        deleteNet_def eraseParasitics_def parasiticsInvalid_def updateParasitics_def)

section \<open>Gate delays: the maximum over the arcs\<close>









section \<open>The sizing search\<close>

lemmas sizing_defs = findTargetCell_def getSwappableCells_def dontUse_def isLinkCell_def
  targetLoad_def targetLoadDist_def









section \<open>Resizing a driver to the target slew\<close>

lemma replaceCell_fst: "fst (replaceCell L i c j s) = (findMaster L c \<noteq> None)"
  by (simp add: replaceCell_def Let_def split: option.splits)


text \<open>
  C6, as the code has it. \<^verbatim>\<open>resizeToTargetSlew\<close> returns 0 or 1, and 1 exactly when the
  pin is no top-level port, the instance is not don't-touch and is a logic standard cell
  with a Liberty cell, the load is positive, the search selects a different cell,
  \<^verbatim>\<open>replaceCell\<close> succeeds, and the instance is not being revisited.
\<close>

theorem resizeToTargetSlew_result:
  assumes "resizeToTargetSlew L ewp loadCap drvr_pin s = Inr (r, s')"
    and "i = pin_inst (db s) drvr_pin"
    and "revisiting_inst = (hasMultipleOutputs L (db s) i \<and> i \<in> resized_multi_output_insts s)"
    and "s2 = s\<lparr>resized_multi_output_insts :=
                   (if hasMultipleOutputs L (db s) i then insert i (resized_multi_output_insts s)
                    else resized_multi_output_insts s),
                 parasitics_invalid := ewp drvr_pin (parasitics_invalid s)\<rparr>"
  shows "(r = 0 \<or> r = 1)
    \<and> (r = 1 \<longleftrightarrow>
         (\<exists>cell target_cell.
            libertyCell L (db s) i = Some cell
            \<and> \<not> pin_isBTerm (db s) drvr_pin \<and> \<not> dontTouch (db s) i \<and> isLogicStdCell (db s) i
            \<and> loadCap s2 drvr_pin > 0
            \<and> findTargetCell L s2 cell (loadCap s2 drvr_pin) revisiting_inst = Inr target_cell
            \<and> target_cell \<noteq> cell
            \<and> fst (replaceCell L i target_cell True s2)
            \<and> \<not> revisiting_inst))"
proof -
  have s2': "(if hasMultipleOutputs L (db s) i
              then s\<lparr>resized_multi_output_insts := insert i (resized_multi_output_insts s)\<rparr>
              else s)\<lparr>parasitics_invalid := ewp drvr_pin (parasitics_invalid (if hasMultipleOutputs L (db s) i
              then s\<lparr>resized_multi_output_insts := insert i (resized_multi_output_insts s)\<rparr>
              else s))\<rparr> = s2"
    using assms(4) by simp
  show ?thesis
    using assms(1)
    unfolding resizeToTargetSlew_def Let_def assms(2)[symmetric] assms(3)[symmetric] s2'
    by (auto split: option.splits if_splits sum.splits)
qed

theorem resizeToTargetSlew_result_witness:
  "map_sum id fst (resizeToTargetSlew ex_library (\<lambda>p. id) (\<lambda>s p. 54 / 10 ^ 16) 8 ex_resizer) = Inr 1
   \<and> (\<exists>cell target_cell.
         libertyCell ex_library (db ex_resizer) 4 = Some cell \<and> target_cell \<noteq> cell
         \<and> findMaster ex_library target_cell \<noteq> None)"
proof -
  have e: "map_sum id fst
             (resizeToTargetSlew ex_library (\<lambda>p. id) (\<lambda>s p. 54 / 10 ^ 16) 8 ex_resizer) = Inr 1"
    by (simp add: resizeToTargetSlew_def Let_def sizing_defs nl_defs ex_defs
          dontTouch_def isLogicStdCell_def hasMultipleOutputs_def replaceCell_def)
  then obtain s' where
    r: "resizeToTargetSlew ex_library (\<lambda>p. id) (\<lambda>s p. 54 / 10 ^ 16) 8 ex_resizer = Inr (1, s')"
    by (cases "resizeToTargetSlew ex_library (\<lambda>p. id) (\<lambda>s p. 54 / 10 ^ 16) 8 ex_resizer") auto
  have i: "pin_inst (db ex_resizer) 8 = 4"
    by (simp add: ex_defs)
  show ?thesis
    using resizeToTargetSlew_result[OF r refl refl refl] e
    by (auto simp: i replaceCell_fst)
qed

text \<open>
  C6, as the claim has it, fails on a later visit: the search selects another cell and
  \<^verbatim>\<open>replaceCell\<close> rebinds the instance to it, yet the result is 0.
\<close>

theorem resizeToTargetSlew_revisit_counterexample:
  "findTargetCell ex_library ex_revisit 30 (54 / 10 ^ 16) True = Inr 31
   \<and> fst (replaceCell ex_library 4 31 True ex_revisit)
   \<and> map_sum id (\<lambda>r. (fst r, libertyCell ex_library (db (snd r)) 4))
        (resizeToTargetSlew ex_library (\<lambda>p. id) (\<lambda>s p. 54 / 10 ^ 16) 8 ex_revisit)
       = Inr (0, Some 31)"
  by (simp add: resizeToTargetSlew_def Let_def sizing_defs nl_defs ex_defs ex_revisit_def
        dontTouch_def isLogicStdCell_def hasMultipleOutputs_def replaceCell_def
        designAreaIncr_def journalInstReplaceCellBefore_def hasKey_def db_edit_def swapMaster_def
        haveEstimatedParasitics_def invalidateParasitics_def parasiticsInvalid_def)

section \<open>The target-load search: doubling, then bisection\<close>

















end
